theory Spec2Isabelle
  imports Main
begin

section \<open>Engine strings\<close>

text \<open>
  Text is modelled by Isabelle strings, one \<open>char\<close> for each character of an
  \<open>FString\<close> or of a Java \<open>String\<close>; this covers the ASCII range, which is all the
  program's own literals use.

  The engine compares an \<open>FString\<close> with \<open>==\<close> ignoring letter case, so
  \<open>Event == TEXT("TabClosed")\<close> in the source is \<open>FString_eq Event ''TabClosed''\<close> here.
\<close>

definition FChar_ToLower :: "char \<Rightarrow> char" where
  "FChar_ToLower c =
     (let n = (of_char c :: nat) in if 65 \<le> n \<and> n \<le> 90 then char_of (n + 32) else c)"

definition FString_eq :: "string \<Rightarrow> string \<Rightarrow> bool" where
  "FString_eq a b = (map FChar_ToLower a = map FChar_ToLower b)"

section \<open>The session object and the registry of the active instance\<close>

text \<open>
  \<open>UCPP_ABCT_Base\<close> is the class of \<open>CPP_ABCT_Base.cpp\<close>, with the fields its constructor
  initialises. Objects live in a store indexed by \<open>instance_ref\<close>; an index outside the
  domain of \<open>objects\<close> is an object that has been destroyed (or never existed), which is what
  the weak pointer of the registry tests with \<open>IsValid\<close>.
\<close>

record UCPP_ABCT_Base =
  bIsCustomTabOpen :: bool
  CurrentURL :: string
  LastNavigationEvent :: string
  LastDeepLinkAction :: string
  LastDeepLinkParams :: string
  DefaultToolbarColor :: string
  bShowTitle :: bool
  bEnableUrlBarHiding :: bool
  CustomUserAgent :: string
  CustomHeader :: string
  bEnableDebugLogging :: bool

definition UCPP_ABCT_Base_ctor :: UCPP_ABCT_Base where
  "UCPP_ABCT_Base_ctor =
     \<lparr>bIsCustomTabOpen = False, CurrentURL = '''', LastNavigationEvent = '''',
      LastDeepLinkAction = '''', LastDeepLinkParams = '''',
      DefaultToolbarColor = ''#4285F4'', bShowTitle = True, bEnableUrlBarHiding = True,
      CustomUserAgent = '''', CustomHeader = '''', bEnableDebugLogging = True\<rparr>"

type_synonym instance_ref = nat

text \<open>
  What leaves the C++ object: the two Blueprint events it broadcasts, and the two static
  Java methods it calls through JNI.
\<close>

datatype blueprint_event =
  OnNavigationEvent string string
| OnDeepLinkReceived string string

datatype java_call =
  openTab string string string string
| closeTab

record world =
  objects :: "instance_ref \<rightharpoonup> UCPP_ABCT_Base"
  ActiveInstance :: "instance_ref option"
  broadcasts :: "(instance_ref \<times> blueprint_event) list"
  java_calls :: "java_call list"

text \<open>
  The build and the JNI lookups of one call: whether the code is compiled for Android, and
  whether \<open>GetJavaEnv\<close>, \<open>FindJavaClass\<close> and the two \<open>GetStaticMethodID\<close> lookups give
  a non-null result.
\<close>

record platform =
  PLATFORM_ANDROID :: bool
  JavaEnv :: bool
  ChromeCustomTabsClass :: bool
  OpenTabMethod :: bool
  CloseTabMethod :: bool

subsection \<open>namespace ChromeCustomTabsRegistry\<close>

definition RegisterActiveInstance :: "instance_ref option \<Rightarrow> world \<Rightarrow> world" where
  "RegisterActiveInstance Instance w = w\<lparr>ActiveInstance := Instance\<rparr>"

definition UnregisterActiveInstance :: "world \<Rightarrow> world" where
  "UnregisterActiveInstance w = w\<lparr>ActiveInstance := None\<rparr>"

definition GetActiveInstance :: "world \<Rightarrow> instance_ref option" where
  "GetActiveInstance w =
     (case ActiveInstance w of
        None \<Rightarrow> None
      | Some i \<Rightarrow> (if objects w i \<noteq> None then Some i else None))"

subsection \<open>State of one object\<close>

definition modify :: "instance_ref \<Rightarrow> (UCPP_ABCT_Base \<Rightarrow> UCPP_ABCT_Base) \<Rightarrow> world \<Rightarrow> world" where
  "modify this f w = w\<lparr>objects := (objects w)(this := map_option f (objects w this))\<rparr>"

definition IsChromeCustomTabOpen :: "instance_ref \<Rightarrow> world \<Rightarrow> bool" where
  "IsChromeCustomTabOpen this w =
     (case objects w this of None \<Rightarrow> False | Some self \<Rightarrow> bIsCustomTabOpen self)"

definition GetCurrentURL :: "instance_ref \<Rightarrow> world \<Rightarrow> string" where
  "GetCurrentURL this w =
     (case objects w this of None \<Rightarrow> '''' | Some self \<Rightarrow> CurrentURL self)"

definition OnCustomTabOpened :: "platform \<Rightarrow> instance_ref \<Rightarrow> string \<Rightarrow> world \<Rightarrow> world" where
  "OnCustomTabOpened p this URL w =
     (let w' = modify this (\<lambda>self. self\<lparr>bIsCustomTabOpen := True, CurrentURL := URL\<rparr>) w
      in if PLATFORM_ANDROID p then RegisterActiveInstance (Some this) w' else w')"

definition OnCustomTabClosed :: "platform \<Rightarrow> instance_ref \<Rightarrow> world \<Rightarrow> world" where
  "OnCustomTabClosed p this w =
     (let w' = modify this (\<lambda>self. self\<lparr>bIsCustomTabOpen := False, CurrentURL := ''''\<rparr>) w
      in if PLATFORM_ANDROID p then UnregisterActiveInstance w' else w')"

subsection \<open>Opening and closing\<close>

text \<open>
  \<open>result\<close> is what the Java method \<open>openTab\<close> returns to the JNI call.
\<close>

definition OpenChromeCustomTab ::
  "platform \<Rightarrow> bool \<Rightarrow> instance_ref \<Rightarrow> string \<Rightarrow> string \<Rightarrow> world \<Rightarrow> bool \<times> world" where
  "OpenChromeCustomTab p result this URL ToolbarColor w =
     (case objects w this of
        None \<Rightarrow> (False, w)
      | Some self \<Rightarrow>
          if URL = [] then (False, w)
          else if \<not> PLATFORM_ANDROID p then (False, w)
          else if \<not> JavaEnv p then (False, w)
          else if \<not> ChromeCustomTabsClass p then (False, w)
          else if \<not> OpenTabMethod p then (False, w)
          else
            let w' = w\<lparr>java_calls := java_calls w @
                       [openTab URL ToolbarColor (CustomUserAgent self) (CustomHeader self)]\<rparr>
            in if result then (True, OnCustomTabOpened p this URL w') else (False, w'))"

definition CloseChromeCustomTab :: "platform \<Rightarrow> instance_ref \<Rightarrow> world \<Rightarrow> world" where
  "CloseChromeCustomTab p this w =
     (if PLATFORM_ANDROID p then
        if JavaEnv p then
          if ChromeCustomTabsClass p then
            if CloseTabMethod p then
              OnCustomTabClosed p this (w\<lparr>java_calls := java_calls w @ [closeTab]\<rparr>)
            else w
          else w
        else w
      else w)"

subsection \<open>Navigation events and deep links\<close>

definition broadcast :: "instance_ref \<Rightarrow> blueprint_event \<Rightarrow> world \<Rightarrow> world" where
  "broadcast this e w = w\<lparr>broadcasts := broadcasts w @ [(this, e)]\<rparr>"

definition HandleNavigationEvent ::
  "platform \<Rightarrow> instance_ref \<Rightarrow> string \<Rightarrow> string \<Rightarrow> world \<Rightarrow> world" where
  "HandleNavigationEvent p this Event URL w =
     (let w1 = modify this (\<lambda>self. self\<lparr>LastNavigationEvent := Event\<rparr>) w;
          w2 = (if URL \<noteq> [] then modify this (\<lambda>self. self\<lparr>CurrentURL := URL\<rparr>) w1 else w1);
          w3 = (if FString_eq Event ''TabClosed'' then OnCustomTabClosed p this w2
                else if FString_eq Event ''NavigationStarted'' \<and>
                        IsChromeCustomTabOpen this w2 = False
                then OnCustomTabOpened p this URL w2
                else w2)
      in broadcast this (OnNavigationEvent Event URL) w3)"

definition HandleDeepLink :: "instance_ref \<Rightarrow> string \<Rightarrow> string \<Rightarrow> world \<Rightarrow> world" where
  "HandleDeepLink this Action ParamsJson w =
     broadcast this (OnDeepLinkReceived Action ParamsJson)
       (modify this (\<lambda>self. self\<lparr>LastDeepLinkAction := Action,
                                    LastDeepLinkParams := ParamsJson\<rparr>) w)"

subsection \<open>The JNI callbacks (ChromeCustomTabsJNI.cpp)\<close>

text \<open>
  \<open>Printf_d\<close> is the \<open>%d\<close> of \<open>FString::Printf\<close>.
\<close>

fun digits :: "nat \<Rightarrow> string" where
  "digits n =
     (if n < 10 then [''0123456789'' ! n]
      else digits (n div 10) @ [''0123456789'' ! (n mod 10)])"

declare digits.simps [simp del]

definition Printf_d :: "int \<Rightarrow> string" where
  "Printf_d i = (if i < 0 then CHR ''-'' # digits (nat (- i)) else digits (nat i))"

definition EventName :: "int \<Rightarrow> string" where
  "EventName jEvent =
     (if jEvent = 1 then ''NavigationStarted''
      else if jEvent = 2 then ''NavigationFinished''
      else if jEvent = 3 then ''NavigationFailed''
      else if jEvent = 4 then ''NavigationAborted''
      else if jEvent = 5 then ''TabShown''
      else if jEvent = 6 then ''TabHidden''
      else ''Unknown('' @ Printf_d jEvent @ '')'')"

text \<open>
  The native methods the Java class declares. Each JNI function converts its arguments and
  posts a task to the game thread; \<open>game_thread_task\<close> is the body of that task. The
  conversions between Java and engine strings are the identity on the modelled characters.
\<close>

datatype native_call =
  nativeOnDeepLinkReceived string string
| nativeOnNavigationEvent int string
| nativeOnTabOpened
| nativeOnTabClosed
| nativeOnMessageChannelReady
| nativeOnPostMessage string string

definition game_thread_task :: "platform \<Rightarrow> native_call \<Rightarrow> world \<Rightarrow> world" where
  "game_thread_task p c w =
     (case GetActiveInstance w of
        None \<Rightarrow> w
      | Some Instance \<Rightarrow>
          (case c of
             nativeOnDeepLinkReceived Action ParamsJson \<Rightarrow>
               HandleDeepLink Instance Action ParamsJson w
           | nativeOnNavigationEvent jEvent jUrl \<Rightarrow>
               HandleNavigationEvent p Instance (EventName jEvent) jUrl w
           | nativeOnTabOpened \<Rightarrow> HandleNavigationEvent p Instance ''TabOpened'' '''' w
           | nativeOnTabClosed \<Rightarrow> HandleNavigationEvent p Instance ''TabClosed'' '''' w
           | nativeOnMessageChannelReady \<Rightarrow>
               HandleNavigationEvent p Instance ''MessageChannelReady'' '''' w
           | nativeOnPostMessage Message Origin \<Rightarrow> w))"

section \<open>Deep-link parameters\<close>

subsection \<open>The engine's JSON reader\<close>

text \<open>
  \<open>GetDeepLinkParameter\<close> reads its argument with the engine's \<open>FJsonSerializer\<close> and
  \<open>FJsonObject\<close>, which belong to the engine and not to this repository. They are
  modelled here as a reader of JSON texts (RFC 8259) whose root is an object:
  \<^item> \<open>read_tokens\<close> cuts the text into tokens, one character at a time;
  \<^item> \<open>read_all\<close> checks the tokens against the grammar with a stack of open containers
    and collects the members of the root object;
  \<^item> a field is looked up by name with the engine's string comparison, and the last
    member of that name wins;
  \<^item> \<open>AsString\<close> gives the text of a string value; of a number it gives the digits as
    written and of a container or null the empty string.

  The values of nested containers are checked but not kept: the functions of this
  repository read top-level fields only. An escape \<open>\uXXXX\<close> above \<open>00FF\<close> has no
  counterpart among the characters modelled, and a text with one is rejected. The
  properties proved below are about objects whose members are strings, the form
  \<open>queryStringToJson\<close> writes; numbers, literals and escapes play no part in them.
\<close>

datatype FJsonValue =
  FJsonValueString string
| FJsonValueNumber string
| FJsonValueBoolean bool
| FJsonValueNull
| FJsonValueArray
| FJsonValueObject

type_synonym FJsonObject = "(string \<times> FJsonValue) list"

datatype EJsonToken =
  Tok_CurlyOpen
| Tok_CurlyClose
| Tok_SquareOpen
| Tok_SquareClose
| Tok_Colon
| Tok_Comma
| Tok_String string
| Tok_Number string
| Tok_True
| Tok_False
| Tok_Null

definition IsWhitespace :: "char \<Rightarrow> bool" where
  "IsWhitespace c = (c \<in> set [CHR '' '', CHR 0x09, CHR 0x0A, CHR 0x0D])"

definition IsDigit :: "char \<Rightarrow> bool" where
  "IsDigit c = (c \<in> set ''0123456789'')"

definition IsJsonNumber :: "char \<Rightarrow> bool" where
  "IsJsonNumber c = (IsDigit c \<or> c \<in> set ''-.+eE'')"

definition IsHexDigit :: "char \<Rightarrow> bool" where
  "IsHexDigit c = (c \<in> set ''0123456789abcdefABCDEF'')"

definition HexValue :: "char \<Rightarrow> nat" where
  "HexValue c =
     (let n = (of_char c :: nat)
      in if 97 \<le> n then n - 87 else if 65 \<le> n then n - 55 else n - 48)"

datatype number_state =
  Num_Start | Num_Minus | Num_Zero | Num_Int | Num_Point | Num_Frac | Num_E | Num_ESign | Num_Exp
| Num_Bad

fun number_step :: "number_state \<Rightarrow> char \<Rightarrow> number_state" where
  "number_step Num_Start c =
     (if c = CHR ''-'' then Num_Minus else if c = CHR ''0'' then Num_Zero
      else if IsDigit c then Num_Int else Num_Bad)"
| "number_step Num_Minus c =
     (if c = CHR ''0'' then Num_Zero else if IsDigit c then Num_Int else Num_Bad)"
| "number_step Num_Zero c =
     (if c = CHR ''.'' then Num_Point else if c = CHR ''e'' \<or> c = CHR ''E'' then Num_E
      else Num_Bad)"
| "number_step Num_Int c =
     (if IsDigit c then Num_Int else if c = CHR ''.'' then Num_Point
      else if c = CHR ''e'' \<or> c = CHR ''E'' then Num_E else Num_Bad)"
| "number_step Num_Point c = (if IsDigit c then Num_Frac else Num_Bad)"
| "number_step Num_Frac c =
     (if IsDigit c then Num_Frac else if c = CHR ''e'' \<or> c = CHR ''E'' then Num_E
      else Num_Bad)"
| "number_step Num_E c =
     (if c = CHR ''+'' \<or> c = CHR ''-'' then Num_ESign else if IsDigit c then Num_Exp
      else Num_Bad)"
| "number_step Num_ESign c = (if IsDigit c then Num_Exp else Num_Bad)"
| "number_step Num_Exp c = (if IsDigit c then Num_Exp else Num_Bad)"
| "number_step Num_Bad c = Num_Bad"

definition IsNumber :: "string \<Rightarrow> bool" where
  "IsNumber s = (foldl number_step Num_Start s \<in> set [Num_Zero, Num_Int, Num_Frac, Num_Exp])"

definition word_token :: "string \<Rightarrow> EJsonToken option" where
  "word_token s =
     (if s = ''true'' then Some Tok_True
      else if s = ''false'' then Some Tok_False
      else if s = ''null'' then Some Tok_Null
      else None)"

datatype reader_mode =
  Between
| InString string
| InEscape string
| InUnicode string "char list"
| InNumber string
| InWord string

definition IsAlpha :: "char \<Rightarrow> bool" where
  "IsAlpha c = (let n = (of_char c :: nat) in (65 \<le> n \<and> n \<le> 90) \<or> (97 \<le> n \<and> n \<le> 122))"

definition read_between :: "char \<Rightarrow> (reader_mode \<times> EJsonToken list) option" where
  "read_between c =
     (if IsWhitespace c then Some (Between, [])
      else if c = CHR ''{'' then Some (Between, [Tok_CurlyOpen])
      else if c = CHR ''}'' then Some (Between, [Tok_CurlyClose])
      else if c = CHR ''['' then Some (Between, [Tok_SquareOpen])
      else if c = CHR '']'' then Some (Between, [Tok_SquareClose])
      else if c = CHR '':'' then Some (Between, [Tok_Colon])
      else if c = CHR '','' then Some (Between, [Tok_Comma])
      else if c = CHR 0x22 then Some (InString [], [])
      else if c = CHR ''-'' \<or> IsDigit c then Some (InNumber [c], [])
      else if IsAlpha c then Some (InWord [c], [])
      else None)"

definition read_escape :: "string \<Rightarrow> char \<Rightarrow> (reader_mode \<times> EJsonToken list) option" where
  "read_escape acc c =
     (if c = CHR 0x22 \<or> c = CHR 0x5C \<or> c = CHR ''/'' then Some (InString (acc @ [c]), [])
      else if c = CHR ''b'' then Some (InString (acc @ [CHR 0x08]), [])
      else if c = CHR ''f'' then Some (InString (acc @ [CHR 0x0C]), [])
      else if c = CHR ''n'' then Some (InString (acc @ [CHR 0x0A]), [])
      else if c = CHR ''r'' then Some (InString (acc @ [CHR 0x0D]), [])
      else if c = CHR ''t'' then Some (InString (acc @ [CHR 0x09]), [])
      else if c = CHR ''u'' then Some (InUnicode acc [], [])
      else None)"

definition after_token ::
  "EJsonToken option \<Rightarrow> char \<Rightarrow> (reader_mode \<times> EJsonToken list) option" where
  "after_token t c =
     (case t of
        None \<Rightarrow> None
      | Some t \<Rightarrow>
          (case read_between c of None \<Rightarrow> None | Some (m, ts) \<Rightarrow> Some (m, t # ts)))"

fun read_char :: "reader_mode \<Rightarrow> char \<Rightarrow> (reader_mode \<times> EJsonToken list) option" where
  "read_char Between c = read_between c"
| "read_char (InString acc) c =
     (if c = CHR 0x22 then Some (Between, [Tok_String acc])
      else if c = CHR 0x5C then Some (InEscape acc, [])
      else Some (InString (acc @ [c]), []))"
| "read_char (InEscape acc) c = read_escape acc c"
| "read_char (InUnicode acc hs) c =
     (if \<not> IsHexDigit c then None
      else if length hs < 3 then Some (InUnicode acc (hs @ [c]), [])
      else
        let n = foldl (\<lambda>v h. 16 * v + HexValue h) 0 (hs @ [c])
        in if n < 256 then Some (InString (acc @ [char_of n]), []) else None)"
| "read_char (InNumber acc) c =
     (if IsJsonNumber c then Some (InNumber (acc @ [c]), [])
      else after_token (if IsNumber acc then Some (Tok_Number acc) else None) c)"
| "read_char (InWord acc) c =
     (if IsAlpha c \<or> IsDigit c then Some (InWord (acc @ [c]), [])
      else after_token (word_token acc) c)"

fun read_end :: "reader_mode \<Rightarrow> EJsonToken list option" where
  "read_end Between = Some []"
| "read_end (InNumber acc) = (if IsNumber acc then Some [Tok_Number acc] else None)"
| "read_end (InWord acc) = map_option (\<lambda>t. [t]) (word_token acc)"
| "read_end _ = None"

fun read_tokens :: "reader_mode \<Rightarrow> string \<Rightarrow> EJsonToken list option" where
  "read_tokens m [] = read_end m"
| "read_tokens m (c # cs) =
     (case read_char m c of
        None \<Rightarrow> None
      | Some (m', ts) \<Rightarrow> map_option ((@) ts) (read_tokens m' cs))"

datatype EJson = EJson_Object | EJson_Array

datatype expect =
  Exp_Root
| Exp_FirstMember
| Exp_Member
| Exp_Colon
| Exp_Value
| Exp_FirstElement
| Exp_CommaOrClose
| Exp_Done

type_synonym reader_state = "expect \<times> EJson list \<times> string \<times> FJsonObject"

definition value_done ::
  "FJsonValue \<Rightarrow> EJson list \<Rightarrow> string \<Rightarrow> FJsonObject \<Rightarrow> reader_state option" where
  "value_done v st key ms =
     Some (Exp_CommaOrClose, st, key, if st = [EJson_Object] then ms @ [(key, v)] else ms)"

definition close_container ::
  "EJson \<Rightarrow> EJson list \<Rightarrow> string \<Rightarrow> FJsonObject \<Rightarrow> reader_state option" where
  "close_container k st key ms =
     (case st of
        [] \<Rightarrow> None
      | k' # rest \<Rightarrow>
          if k' \<noteq> k then None
          else if rest = [] then Some (Exp_Done, [], key, ms)
          else value_done (case k of EJson_Object \<Rightarrow> FJsonValueObject | EJson_Array \<Rightarrow> FJsonValueArray)
                 rest key ms)"

definition read_value ::
  "EJsonToken \<Rightarrow> EJson list \<Rightarrow> string \<Rightarrow> FJsonObject \<Rightarrow> reader_state option" where
  "read_value t st key ms =
     (case t of
        Tok_String s \<Rightarrow> value_done (FJsonValueString s) st key ms
      | Tok_Number n \<Rightarrow> value_done (FJsonValueNumber n) st key ms
      | Tok_True \<Rightarrow> value_done (FJsonValueBoolean True) st key ms
      | Tok_False \<Rightarrow> value_done (FJsonValueBoolean False) st key ms
      | Tok_Null \<Rightarrow> value_done FJsonValueNull st key ms
      | Tok_CurlyOpen \<Rightarrow> Some (Exp_FirstMember, EJson_Object # st, key, ms)
      | Tok_SquareOpen \<Rightarrow> Some (Exp_FirstElement, EJson_Array # st, key, ms)
      | _ \<Rightarrow> None)"

definition read_name ::
  "EJsonToken \<Rightarrow> EJson list \<Rightarrow> string \<Rightarrow> FJsonObject \<Rightarrow> reader_state option" where
  "read_name t st key ms =
     (case t of
        Tok_String k \<Rightarrow> Some (Exp_Colon, st, if st = [EJson_Object] then k else key, ms)
      | _ \<Rightarrow> None)"

definition read_token :: "reader_state \<Rightarrow> EJsonToken \<Rightarrow> reader_state option" where
  "read_token s t =
     (case s of (e, st, key, ms) \<Rightarrow>
        (case e of
           Exp_Root \<Rightarrow>
             if t = Tok_CurlyOpen then Some (Exp_FirstMember, [EJson_Object], key, ms) else None
         | Exp_FirstMember \<Rightarrow>
             if t = Tok_CurlyClose then close_container EJson_Object st key ms
             else read_name t st key ms
         | Exp_Member \<Rightarrow> read_name t st key ms
         | Exp_Colon \<Rightarrow> if t = Tok_Colon then Some (Exp_Value, st, key, ms) else None
         | Exp_Value \<Rightarrow> read_value t st key ms
         | Exp_FirstElement \<Rightarrow>
             if t = Tok_SquareClose then close_container EJson_Array st key ms
             else read_value t st key ms
         | Exp_CommaOrClose \<Rightarrow>
             if t = Tok_Comma then
               (case st of
                  [] \<Rightarrow> None
                | EJson_Object # _ \<Rightarrow> Some (Exp_Member, st, key, ms)
                | EJson_Array # _ \<Rightarrow> Some (Exp_Value, st, key, ms))
             else if t = Tok_CurlyClose then close_container EJson_Object st key ms
             else if t = Tok_SquareClose then close_container EJson_Array st key ms
             else None
         | Exp_Done \<Rightarrow> None))"

fun read_all :: "reader_state \<Rightarrow> EJsonToken list \<Rightarrow> FJsonObject option" where
  "read_all s [] = (case s of (e, st, key, ms) \<Rightarrow> if e = Exp_Done then Some ms else None)"
| "read_all s (t # ts) =
     (case read_token s t of None \<Rightarrow> None | Some s' \<Rightarrow> read_all s' ts)"

definition Deserialize :: "string \<Rightarrow> FJsonObject option" where
  "Deserialize json =
     (case read_tokens Between json of
        None \<Rightarrow> None
      | Some ts \<Rightarrow> read_all (Exp_Root, [], [], []) ts)"

definition FindField :: "FJsonObject \<Rightarrow> string \<Rightarrow> FJsonValue option" where
  "FindField obj FieldName =
     (case filter (\<lambda>(k, v). FString_eq k FieldName) obj of
        [] \<Rightarrow> None
      | m # ms \<Rightarrow> Some (snd (last (m # ms))))"

definition HasField :: "FJsonObject \<Rightarrow> string \<Rightarrow> bool" where
  "HasField obj FieldName = (FindField obj FieldName \<noteq> None)"

fun AsString :: "FJsonValue \<Rightarrow> string" where
  "AsString (FJsonValueString s) = s"
| "AsString (FJsonValueNumber n) = n"
| "AsString (FJsonValueBoolean b) = (if b then ''true'' else ''false'')"
| "AsString FJsonValueNull = []"
| "AsString FJsonValueArray = []"
| "AsString FJsonValueObject = []"

definition GetStringField :: "FJsonObject \<Rightarrow> string \<Rightarrow> string" where
  "GetStringField obj FieldName =
     (case FindField obj FieldName of None \<Rightarrow> [] | Some v \<Rightarrow> AsString v)"

subsection \<open>The parameter helpers (CPP_ABCT_Base.cpp)\<close>

text \<open>
  Each helper returns a \<open>bool\<close> and writes its result through a reference parameter. It
  assigns the parameter exactly when it returns \<open>true\<close>, so the model returns \<open>Some v\<close>
  for "returned true after assigning \<open>v\<close>" and \<open>None\<close> for "returned false, parameter
  untouched".

  \<open>Atoi\<close> is the C library's conversion: leading white space, an optional sign, then
  decimal digits up to the first other character; no digits give 0. The engine takes the
  \<open>long\<close> of the library and stores it in an \<open>int32\<close>: \<open>long_saturate\<close> is what the
  library returns for a value beyond its \<open>long\<close> (64 bits on a 64-bit Android target), and
  \<open>int32_of\<close> keeps the low 32 bits, read as a signed number. Floating point is not
  modelled: \<open>Atof\<close> is a parameter of the functions that call it.
\<close>

definition GetDeepLinkParameter :: "string \<Rightarrow> string \<Rightarrow> string option" where
  "GetDeepLinkParameter ParamsJson Key =
     (if ParamsJson = [] \<or> Key = [] then None
      else case Deserialize ParamsJson of
             Some JsonObject \<Rightarrow>
               if HasField JsonObject Key then Some (GetStringField JsonObject Key) else None
           | None \<Rightarrow> None)"

definition isspace :: "char \<Rightarrow> bool" where
  "isspace c = (c \<in> set [CHR '' '', CHR 0x09, CHR 0x0A, CHR 0x0B, CHR 0x0C, CHR 0x0D])"

fun Atoi_digits :: "int \<Rightarrow> string \<Rightarrow> int" where
  "Atoi_digits acc [] = acc"
| "Atoi_digits acc (c # cs) =
     (if IsDigit c then Atoi_digits (10 * acc + (of_char c - 48)) cs else acc)"

definition long_saturate :: "int \<Rightarrow> int" where
  "long_saturate v = max (- 9223372036854775808) (min 9223372036854775807 v)"

definition int32_of :: "int \<Rightarrow> int" where
  "int32_of v = (v + 2147483648) mod 4294967296 - 2147483648"

definition Atoi :: "string \<Rightarrow> int" where
  "Atoi s =
     int32_of (long_saturate
       (case dropWhile isspace s of
          [] \<Rightarrow> 0
        | c # cs \<Rightarrow>
            if c = CHR ''-'' then - Atoi_digits 0 cs
            else if c = CHR ''+'' then Atoi_digits 0 cs
            else Atoi_digits 0 (c # cs)))"

definition GetDeepLinkParameterAsFloat ::
  "(string \<Rightarrow> 'f) \<Rightarrow> string \<Rightarrow> string \<Rightarrow> 'f option" where
  "GetDeepLinkParameterAsFloat Atof ParamsJson Key =
     (case GetDeepLinkParameter ParamsJson Key of
        Some StringValue \<Rightarrow> Some (Atof StringValue)
      | None \<Rightarrow> None)"

definition GetDeepLinkParameterAsInt :: "string \<Rightarrow> string \<Rightarrow> int option" where
  "GetDeepLinkParameterAsInt ParamsJson Key =
     (case GetDeepLinkParameter ParamsJson Key of
        Some StringValue \<Rightarrow> Some (Atoi StringValue)
      | None \<Rightarrow> None)"

definition GetDeepLinkParameterAsVector ::
  "(string \<Rightarrow> 'f) \<Rightarrow> string \<Rightarrow> ('f \<times> 'f \<times> 'f) option" where
  "GetDeepLinkParameterAsVector Atof ParamsJson =
     (let bFoundX = GetDeepLinkParameterAsFloat Atof ParamsJson ''x'';
          bFoundY = GetDeepLinkParameterAsFloat Atof ParamsJson ''y'';
          bFoundZ = GetDeepLinkParameterAsFloat Atof ParamsJson ''z''
      in case (bFoundX, bFoundY, bFoundZ) of
           (Some X, Some Y, Some Z) \<Rightarrow> Some (X, Y, Z)
         | _ \<Rightarrow> None)"

section \<open>The Java class ChromeCustomTabs\<close>

subsection \<open>Query string to JSON\<close>

text \<open>
  The library methods \<open>queryStringToJson\<close> calls:
  \<^item> \<open>URLDecoder.decode(s, "UTF-8")\<close>: \<open>+\<close> becomes a space and \<open>%XY\<close> the byte with
    that hexadecimal value; a \<open>%\<close> not followed by two hexadecimal digits throws
    \<open>IllegalArgumentException\<close>, which \<open>queryStringToJson\<close> does not catch (it catches
    \<open>UnsupportedEncodingException\<close> only, which UTF-8 never raises). Escaped bytes below
    128 are the characters themselves. For bytes from 128 on the library decodes UTF-8
    sequences; that is not modelled, and \<open>NonAsciiEscape\<close> marks such an input.
  \<^item> \<open>String.split(regex)\<close> with a one-character pattern: the pieces between the
    matches, without the trailing empty pieces; the whole string when nothing matches.
  \<^item> \<open>String.split(regex, 2)\<close>: the pieces before and after the first match.
\<close>

datatype decode_failure = IllegalArgumentException | NonAsciiEscape

definition java_append :: "string \<Rightarrow> decode_failure + string \<Rightarrow> decode_failure + string" where
  "java_append s r = (case r of Inl e \<Rightarrow> Inl e | Inr t \<Rightarrow> Inr (s @ t))"

fun URLDecoder_decode :: "string \<Rightarrow> decode_failure + string" where
  "URLDecoder_decode [] = Inr []"
| "URLDecoder_decode (c # cs) =
     (if c = CHR ''+'' then java_append '' '' (URLDecoder_decode cs)
      else if c = CHR ''%'' then
        (case cs of
           h1 # h2 # rest \<Rightarrow>
             if IsHexDigit h1 \<and> IsHexDigit h2 then
               let v = 16 * HexValue h1 + HexValue h2
               in if v < 128 then java_append [char_of v] (URLDecoder_decode rest)
                  else Inl NonAsciiEscape
             else Inl IllegalArgumentException
         | _ \<Rightarrow> Inl IllegalArgumentException)
      else java_append [c] (URLDecoder_decode cs))"

fun split_from :: "char \<Rightarrow> string \<Rightarrow> string \<Rightarrow> string list" where
  "split_from ch cur [] = [cur]"
| "split_from ch cur (c # cs) =
     (if c = ch then cur # split_from ch [] cs else split_from ch (cur @ [c]) cs)"

definition String_split :: "char \<Rightarrow> string \<Rightarrow> string list" where
  "String_split ch s =
     (if ch \<notin> set s then [s]
      else rev (dropWhile (\<lambda>piece. piece = []) (rev (split_from ch [] s))))"

definition String_split2 :: "char \<Rightarrow> string \<Rightarrow> string list" where
  "String_split2 ch s =
     (if ch \<notin> set s then [s]
      else [takeWhile (\<lambda>c. c \<noteq> ch) s, tl (dropWhile (\<lambda>c. c \<noteq> ch) s)])"

fun queryStringToJson_loop ::
  "nat \<Rightarrow> string list \<Rightarrow> string \<Rightarrow> decode_failure + string" where
  "queryStringToJson_loop i [] json = Inr json"
| "queryStringToJson_loop i (pair # pairs) json =
     (let keyValue = String_split2 CHR ''='' pair
      in if length keyValue = 2 then
           (case URLDecoder_decode (keyValue ! 1) of
              Inl e \<Rightarrow> Inl e
            | Inr decodedValue \<Rightarrow>
                queryStringToJson_loop (i + 1) pairs
                  ((if i > 0 then json @ '','' else json) @
                   [CHR 0x22] @ keyValue ! 0 @ [CHR 0x22, CHR '':'', CHR 0x22] @
                   decodedValue @ [CHR 0x22]))
         else queryStringToJson_loop (i + 1) pairs json)"

definition queryStringToJson :: "string option \<Rightarrow> decode_failure + string" where
  "queryStringToJson query =
     (case query of
        None \<Rightarrow> Inr ''{}''
      | Some q \<Rightarrow>
          if q = [] then Inr ''{}''
          else case queryStringToJson_loop 0 (String_split CHR ''&'' q) ''{'' of
                 Inl e \<Rightarrow> Inl e
               | Inr json \<Rightarrow> Inr (json @ ''}''))"

subsection \<open>The postMessage channel and its retries\<close>

text \<open>
  The static fields of the class, and what the class hands to its surroundings:
  \<^item> \<open>posted\<close>: the runnables given to \<open>runOnUiThread\<close> and to
    \<open>retryHandler.postDelayed\<close> that have not run yet, each with its delay;
  \<^item> \<open>session_requests\<close>: the origins passed to
    \<open>customTabsSession.requestPostMessageChannel\<close>, the transport's primitive;
  \<^item> \<open>native_calls\<close>: the native methods called, the only way to the C++ side;
  \<^item> \<open>log\<close>: the lines written with \<open>Log\<close>.

  A task is one of the three lambdas that touch the channel. \<open>AttemptTask\<close> is the one
  \<open>requestPostMessageChannel\<close> runs on the UI thread; \<open>RetryTask\<close> is the one
  \<open>attemptPostMessageChannelRequest(activity, origin)\<close> posts after a rejection, and
  carries that \<open>origin\<close> to tell on whose behalf it was scheduled (its body reads
  \<open>pendingRetryOrigin\<close> instead); \<open>NavigationFinishedTask\<close> is the one
  \<open>onNavigationEvent\<close> posts. Time is not modelled: \<open>fire i\<close> runs the \<open>i\<close>-th
  pending task, whichever it is. (Called on the UI thread, \<open>runOnUiThread\<close> runs its
  task at once: that is the run in which the task is fired next.)

  \<open>postMessageRetryCount\<close> is a Java \<open>int\<close>; \<open>jint_succ\<close> is its \<open>++\<close>.

  What the transport answers to a request is an input, \<open>result\<close>. The services of the
  device are inputs too: the package name of a browser that supports custom tabs, and
  whether \<open>newSession\<close> gives a session.
\<close>

type_synonym activity = nat

datatype task =
  AttemptTask activity string
| RetryTask activity string
| NavigationFinishedTask activity

datatype log_level = Log_d | Log_i | Log_w | Log_e

record ChromeCustomTabs =
  activityRef :: "activity option"
  customTabsClient :: bool
  customTabsSession :: bool
  serviceConnection :: bool
  messageChannelReady :: bool
  pendingOrigin :: "string option"
  lastNavigatedUrl :: string
  postMessageRetryCount :: int
  pendingRetryOrigin :: "string option"
  posted :: "(nat \<times> task) list"
  session_requests :: "string list"
  native_calls :: "native_call list"
  log :: "(log_level \<times> string) list"

record android_services =
  packageName :: "string option"
  newSession :: bool

definition MAX_POSTMESSAGE_RETRIES :: int where
  "MAX_POSTMESSAGE_RETRIES = 5"

definition RETRY_DELAY_MS :: nat where
  "RETRY_DELAY_MS = 1000"

definition Log :: "log_level \<Rightarrow> string \<Rightarrow> ChromeCustomTabs \<Rightarrow> ChromeCustomTabs" where
  "Log l msg s = s\<lparr>log := log s @ [(l, msg)]\<rparr>"

definition native :: "native_call \<Rightarrow> ChromeCustomTabs \<Rightarrow> ChromeCustomTabs" where
  "native c s = s\<lparr>native_calls := native_calls s @ [c]\<rparr>"

definition postDelayed :: "task \<Rightarrow> nat \<Rightarrow> ChromeCustomTabs \<Rightarrow> ChromeCustomTabs" where
  "postDelayed t delayMillis s = s\<lparr>posted := posted s @ [(delayMillis, t)]\<rparr>"

definition jint_succ :: "int \<Rightarrow> int" where
  "jint_succ n = (if n = 2147483647 then - 2147483648 else n + 1)"

definition bindCustomTabs :: "android_services \<Rightarrow> ChromeCustomTabs \<Rightarrow> ChromeCustomTabs" where
  "bindCustomTabs env s =
     (if serviceConnection s then s
      else if packageName env = None then
        Log Log_w ''Unable to bind Chrome Custom Tabs service (no supporting browser).'' s
      else s\<lparr>serviceConnection := True\<rparr>)"

definition ensureSession :: "android_services \<Rightarrow> ChromeCustomTabs \<Rightarrow> ChromeCustomTabs" where
  "ensureSession env s =
     (if customTabsSession s then s
      else
        let s' = bindCustomTabs env s
        in if customTabsClient s' \<and> \<not> customTabsSession s'
           then s'\<lparr>customTabsSession := newSession env\<rparr> else s')"

definition attemptPostMessageChannelRequest ::
  "bool \<Rightarrow> activity \<Rightarrow> string \<Rightarrow> ChromeCustomTabs \<Rightarrow> ChromeCustomTabs" where
  "attemptPostMessageChannelRequest result activity origin s =
     (if \<not> customTabsSession s then
        Log Log_w ''Session unavailable for PostMessage channel request'' s
      else
        let s1 = s\<lparr>session_requests := session_requests s @ [origin],
                   postMessageRetryCount := jint_succ (postMessageRetryCount s)\<rparr>
        in if \<not> result then
             let s2 = Log Log_w
                        (''requestPostMessageChannel returned false (attempt '' @
                         Printf_d (postMessageRetryCount s1) @ ''/'' @
                         Printf_d MAX_POSTMESSAGE_RETRIES @
                         ''). The session may not be ready yet.'') s1
             in if postMessageRetryCount s2 < MAX_POSTMESSAGE_RETRIES then
                  postDelayed (RetryTask activity origin) RETRY_DELAY_MS
                    (Log Log_i (''Will retry PostMessage channel request in '' @
                                Printf_d (int RETRY_DELAY_MS) @ '' ms...'') s2)
                else
                  (Log Log_e (''Failed to establish PostMessage channel after '' @
                              Printf_d MAX_POSTMESSAGE_RETRIES @ '' attempts'') s2)
                  \<lparr>pendingRetryOrigin := None\<rparr>
           else
             (Log Log_i (''requestPostMessageChannel succeeded on attempt '' @
                         Printf_d (postMessageRetryCount s1)) s1)
             \<lparr>pendingRetryOrigin := None\<rparr>)"

definition retry_body :: "bool \<Rightarrow> activity \<Rightarrow> ChromeCustomTabs \<Rightarrow> ChromeCustomTabs" where
  "retry_body result activity s =
     (case pendingRetryOrigin s of
        None \<Rightarrow> s
      | Some origin \<Rightarrow>
          if \<not> messageChannelReady s
          then attemptPostMessageChannelRequest result activity origin s else s)"

fun run_task :: "bool \<Rightarrow> task \<Rightarrow> ChromeCustomTabs \<Rightarrow> ChromeCustomTabs" where
  "run_task result (AttemptTask activity origin) s =
     attemptPostMessageChannelRequest result activity origin s"
| "run_task result (RetryTask activity origin) s = retry_body result activity s"
| "run_task result (NavigationFinishedTask activity) s = retry_body result activity s"

definition fire :: "nat \<Rightarrow> bool \<Rightarrow> ChromeCustomTabs \<Rightarrow> ChromeCustomTabs" where
  "fire i result s =
     (if i < length (posted s)
      then run_task result (snd (posted s ! i))
             (s\<lparr>posted := take i (posted s) @ drop (Suc i) (posted s)\<rparr>)
      else s)"


definition requestPostMessageChannel ::
  "android_services \<Rightarrow> activity option \<Rightarrow> string option \<Rightarrow> ChromeCustomTabs
     \<Rightarrow> bool \<times> ChromeCustomTabs" where
  "requestPostMessageChannel env activity origin s =
     (case (activity, origin) of
        (Some a, Some orig) \<Rightarrow>
          if orig = [] then (False, s)
          else
            let s1 = ensureSession env s
            in if \<not> customTabsSession s1 then
                 (False, Log Log_w ''Cannot request postMessage channel without a session.'' s1)
               else
                 (True,
                  postDelayed (AttemptTask a orig) 0
                    (s1\<lparr>pendingOrigin := Some orig, pendingRetryOrigin := Some orig,
                        messageChannelReady := False, postMessageRetryCount := 0\<rparr>))
      | _ \<Rightarrow> (False, s))"



definition onPostMessage :: "string option \<Rightarrow> ChromeCustomTabs \<Rightarrow> ChromeCustomTabs" where
  "onPostMessage message s =
     native (nativeOnPostMessage (case message of None \<Rightarrow> [] | Some m \<Rightarrow> m)
               (case pendingOrigin s of None \<Rightarrow> [] | Some origin \<Rightarrow> origin)) s"

subsection \<open>What happens while a request is pending\<close>




section \<open>Notions used to state properties\<close>




text \<open>
  \<open>join\<close> puts a separator between the strings of a list; \<open>member_text\<close> is what
  \<open>queryStringToJson\<close> writes for one pair; a character is \<open>plain\<close> when it can stand
  inside a JSON string as it is.
\<close>

fun join :: "string \<Rightarrow> string list \<Rightarrow> string" where
  "join sep [] = []"
| "join sep [x] = x"
| "join sep (x # y # ys) = x @ sep @ join sep (y # ys)"

definition plain :: "char \<Rightarrow> bool" where
  "plain c = (c \<noteq> CHR 0x22 \<and> c \<noteq> CHR 0x5C)"

definition member_text :: "string \<Rightarrow> string \<Rightarrow> string" where
  "member_text k v = [CHR 0x22] @ k @ [CHR 0x22, CHR '':'', CHR 0x22] @ v @ [CHR 0x22]"

section \<open>Concrete states used in the examples\<close>

definition android :: platform where
  "android =
     \<lparr>PLATFORM_ANDROID = True, JavaEnv = True, ChromeCustomTabsClass = True,
      OpenTabMethod = True, CloseTabMethod = True\<rparr>"

definition two_sessions :: world where
  "two_sessions =
     \<lparr>objects = [1 \<mapsto> UCPP_ABCT_Base_ctor, 2 \<mapsto> UCPP_ABCT_Base_ctor],
      ActiveInstance = None, broadcasts = [], java_calls = []\<rparr>"

definition open_session :: world where
  "open_session =
     \<lparr>objects = [1 \<mapsto> UCPP_ABCT_Base_ctor
                     \<lparr>bIsCustomTabOpen := True, CurrentURL := ''https://example.com''\<rparr>],
      ActiveInstance = Some 1, broadcasts = [], java_calls = []\<rparr>"

definition closed_session :: world where
  "closed_session =
     \<lparr>objects = [1 \<mapsto> UCPP_ABCT_Base_ctor],
      ActiveInstance = None, broadcasts = [], java_calls = []\<rparr>"


definition browser :: android_services where
  "browser = \<lparr>packageName = Some ''com.android.chrome'', newSession = True\<rparr>"


section \<open>Properties of the session object\<close>

subsection \<open>Event names\<close>

lemma FString_eq_event_names:
  "\<not> FString_eq ''TabHidden'' ''TabClosed''"
  "\<not> FString_eq ''TabShown'' ''TabClosed''"
  "\<not> FString_eq ''TabOpened'' ''TabClosed''"
  "\<not> FString_eq ''MessageChannelReady'' ''TabClosed''"
  "\<not> FString_eq ''NavigationStarted'' ''TabClosed''"
  "\<not> FString_eq ''TabHidden'' ''NavigationStarted''"
  "\<not> FString_eq ''TabShown'' ''NavigationStarted''"
  "\<not> FString_eq ''TabOpened'' ''NavigationStarted''"
  "\<not> FString_eq ''MessageChannelReady'' ''NavigationStarted''"
  "FString_eq a a"
  by (simp_all add: FString_eq_def FChar_ToLower_def)

lemma EventName_not_TabClosed: "\<not> FString_eq (EventName n) ''TabClosed''"
  by (simp add: EventName_def FString_eq_def FChar_ToLower_def)

subsection \<open>What one navigation event does to the object\<close>

lemmas session_defs =
  HandleNavigationEvent_def Let_def IsChromeCustomTabOpen_def GetCurrentURL_def modify_def
  broadcast_def OnCustomTabClosed_def OnCustomTabOpened_def RegisterActiveInstance_def
  UnregisterActiveInstance_def

lemma live_HandleNavigationEvent:
  "objects (HandleNavigationEvent p this Event URL w) this = None \<longleftrightarrow> objects w this = None"
  by (auto simp: session_defs)

lemma IsOpen_HandleNavigationEvent:
  "IsChromeCustomTabOpen this (HandleNavigationEvent p this Event URL w) =
     (objects w this \<noteq> None \<and> \<not> FString_eq Event ''TabClosed'' \<and>
      (FString_eq Event ''NavigationStarted'' \<or> IsChromeCustomTabOpen this w))"
  by (auto simp: session_defs split: option.splits)

lemma URL_HandleNavigationEvent:
  "GetCurrentURL this (HandleNavigationEvent p this Event URL w) =
     (if objects w this = None \<or> FString_eq Event ''TabClosed'' then ''''
      else if FString_eq Event ''NavigationStarted'' \<and> \<not> IsChromeCustomTabOpen this w then URL
      else if URL = [] then GetCurrentURL this w else URL)"
  by (auto simp: session_defs split: option.splits)

lemma Active_HandleNavigationEvent:
  "ActiveInstance (HandleNavigationEvent p this Event URL w) =
     (if \<not> PLATFORM_ANDROID p then ActiveInstance w
      else if FString_eq Event ''TabClosed'' then None
      else if FString_eq Event ''NavigationStarted'' \<and> \<not> IsChromeCustomTabOpen this w
      then Some this
      else ActiveInstance w)"
  by (auto simp: session_defs split: option.splits)

lemma IsOpen_live: "IsChromeCustomTabOpen this w \<Longrightarrow> objects w this \<noteq> None"
  by (auto simp: IsChromeCustomTabOpen_def split: option.splits)

text \<open>
  Through the JNI layer the only call that closes the active session is
  \<open>nativeOnTabClosed\<close>.
\<close>

lemma IsOpen_HandleDeepLink:
  "IsChromeCustomTabOpen this (HandleDeepLink this Action ParamsJson w) =
     IsChromeCustomTabOpen this w"
  by (simp add: HandleDeepLink_def IsChromeCustomTabOpen_def modify_def broadcast_def
      split: option.splits)

lemma game_thread_task_closes:
  assumes "GetActiveInstance w = Some i" and "IsChromeCustomTabOpen i w"
    and "\<not> IsChromeCustomTabOpen i (game_thread_task p c w)"
  shows "c = nativeOnTabClosed"
  using assms
  by (cases c)
    (auto simp: game_thread_task_def IsOpen_HandleNavigationEvent FString_eq_event_names
      EventName_not_TabClosed IsOpen_HandleDeepLink dest: IsOpen_live)

subsection \<open>C5\<close>

text \<open>
  C5. After registering session A and then session B, \<open>GetActiveInstance\<close> returns B, and
  not A; after \<open>UnregisterActiveInstance\<close> it returns nothing; unregistering is idempotent
  and a registration replaces the previous one whatever it was. The registry holds a weak
  pointer, so "returns B" is for a session B that is alive.
\<close>

theorem registry_semantics:
  "objects w B \<noteq> None \<Longrightarrow>
     GetActiveInstance
       (RegisterActiveInstance (Some B) (RegisterActiveInstance (Some A) w)) = Some B \<and>
     (A \<noteq> B \<longrightarrow>
        GetActiveInstance
          (RegisterActiveInstance (Some B) (RegisterActiveInstance (Some A) w)) \<noteq> Some A) \<and>
     GetActiveInstance (UnregisterActiveInstance w) = None \<and>
     UnregisterActiveInstance (UnregisterActiveInstance w) = UnregisterActiveInstance w \<and>
     RegisterActiveInstance I (RegisterActiveInstance J w) = RegisterActiveInstance I w"
  by (auto simp: GetActiveInstance_def RegisterActiveInstance_def UnregisterActiveInstance_def)

theorem registry_semantics_witness:
  "objects two_sessions 2 \<noteq> None \<and>
   GetActiveInstance
     (RegisterActiveInstance (Some 2) (RegisterActiveInstance (Some 1) two_sessions)) = Some 2 \<and>
   GetActiveInstance
     (RegisterActiveInstance (Some 2) (RegisterActiveInstance (Some 1) two_sessions)) \<noteq> Some 1 \<and>
   GetActiveInstance (UnregisterActiveInstance two_sessions) = None"
proof -
  have live: "objects two_sessions 2 \<noteq> None"
    by (simp add: two_sessions_def)
  have ne: "(1::nat) \<noteq> 2"
    by simp
  from registry_semantics [OF live, where A = 1 and I = None and J = None] ne live
  show ?thesis
    by blast
qed

subsection \<open>C3\<close>

text \<open>
  C3. In every state where the session is open, a TabHidden event leaves it open and a
  TabShown event after it leaves it open too; an event that leaves the session closed is
  TabClosed (in the engine's string comparison); TabClosed closes the session, clears the
  current URL and, on Android, where the registry exists, leaves no active instance.
\<close>

theorem hidden_and_shown_keep_open:
  "IsChromeCustomTabOpen this w \<Longrightarrow>
     IsChromeCustomTabOpen this (HandleNavigationEvent p this ''TabHidden'' URL w) \<and>
     IsChromeCustomTabOpen this
       (HandleNavigationEvent p this ''TabShown'' URL'
         (HandleNavigationEvent p this ''TabHidden'' URL w)) \<and>
     (\<not> IsChromeCustomTabOpen this (HandleNavigationEvent p this Event URL w) \<longrightarrow>
        FString_eq Event ''TabClosed'') \<and>
     \<not> IsChromeCustomTabOpen this (HandleNavigationEvent p this ''TabClosed'' URL w) \<and>
     GetCurrentURL this (HandleNavigationEvent p this ''TabClosed'' URL w) = '''' \<and>
     (PLATFORM_ANDROID p \<longrightarrow>
        GetActiveInstance (HandleNavigationEvent p this ''TabClosed'' URL w) = None)"
proof -
  assume op: "IsChromeCustomTabOpen this w"
  then have live: "objects w this \<noteq> None"
    by (rule IsOpen_live)
  then have live': "objects (HandleNavigationEvent p this e u w) this \<noteq> None" for e u
    by (simp add: live_HandleNavigationEvent)
  show ?thesis
    using op live live'
    by (simp add: IsOpen_HandleNavigationEvent URL_HandleNavigationEvent FString_eq_event_names
        GetActiveInstance_def Active_HandleNavigationEvent)
qed

theorem hidden_and_shown_keep_open_witness:
  "IsChromeCustomTabOpen 1 open_session \<and>
   IsChromeCustomTabOpen 1 (HandleNavigationEvent android 1 ''TabHidden'' '''' open_session) \<and>
   IsChromeCustomTabOpen 1
     (HandleNavigationEvent android 1 ''TabShown'' ''''
       (HandleNavigationEvent android 1 ''TabHidden'' '''' open_session)) \<and>
   \<not> IsChromeCustomTabOpen 1 (HandleNavigationEvent android 1 ''TabClosed'' '''' open_session) \<and>
   GetCurrentURL 1 (HandleNavigationEvent android 1 ''TabClosed'' '''' open_session) = '''' \<and>
   GetActiveInstance (HandleNavigationEvent android 1 ''TabClosed'' '''' open_session) = None"
proof -
  have op: "IsChromeCustomTabOpen 1 open_session"
    by (simp add: IsChromeCustomTabOpen_def open_session_def)
  have an: "PLATFORM_ANDROID android"
    by (simp add: android_def)
  from hidden_and_shown_keep_open
         [OF op, where p = android and URL = "''''" and URL' = "''''" and Event = "''''"]
       op an
  show ?thesis
    by blast
qed

subsection \<open>C4\<close>

text \<open>
  C4, as the code has it. In every state where the session is closed, a NavigationStarted
  event marks it open and makes the event's URL the current URL. A TabOpened event does not:
  the session stays closed, and the current URL changes only to a URL that is not empty.
\<close>

theorem navigation_started_opens:
  "objects w this \<noteq> None \<Longrightarrow> \<not> IsChromeCustomTabOpen this w \<Longrightarrow>
     IsChromeCustomTabOpen this (HandleNavigationEvent p this ''NavigationStarted'' URL w) \<and>
     GetCurrentURL this (HandleNavigationEvent p this ''NavigationStarted'' URL w) = URL \<and>
     \<not> IsChromeCustomTabOpen this (HandleNavigationEvent p this ''TabOpened'' URL w) \<and>
     GetCurrentURL this (HandleNavigationEvent p this ''TabOpened'' URL w) =
       (if URL = [] then GetCurrentURL this w else URL)"
  by (auto simp: IsOpen_HandleNavigationEvent URL_HandleNavigationEvent FString_eq_event_names)

theorem navigation_started_opens_witness:
  "objects closed_session 1 \<noteq> None \<and> \<not> IsChromeCustomTabOpen 1 closed_session \<and>
   IsChromeCustomTabOpen 1
     (HandleNavigationEvent android 1 ''NavigationStarted'' ''https://example.com'' closed_session) \<and>
   GetCurrentURL 1
     (HandleNavigationEvent android 1 ''NavigationStarted'' ''https://example.com'' closed_session)
     = ''https://example.com''"
proof -
  have live: "objects closed_session 1 \<noteq> None"
    by (simp add: closed_session_def)
  have cl: "\<not> IsChromeCustomTabOpen 1 closed_session"
    by (simp add: IsChromeCustomTabOpen_def closed_session_def UCPP_ABCT_Base_ctor_def)
  from navigation_started_opens [OF live cl, where p = android and URL = "''https://example.com''"]
       live cl
  show ?thesis
    by blast
qed

text \<open>
  The claim as written fails for TabOpened: the event the JNI layer sends when the tab is
  shown, \<open>HandleNavigationEvent("TabOpened", "")\<close>, leaves a closed session closed.
\<close>

theorem tab_opened_counterexample:
  "\<not> IsChromeCustomTabOpen 1 closed_session \<and>
   \<not> IsChromeCustomTabOpen 1 (HandleNavigationEvent android 1 ''TabOpened'' '''' closed_session)"
  by (simp add: session_defs FString_eq_def FChar_ToLower_def closed_session_def
      UCPP_ABCT_Base_ctor_def android_def)

subsection \<open>C10\<close>

text \<open>
  C10. \<open>CloseChromeCustomTab\<close> resets the session (closed, no current URL, no active
  instance) exactly when the build is Android and the JNI environment, the Java class and
  its \<open>closeTab\<close> method are all found, in which case \<open>closeTab\<close> is called; on every
  other path nothing changes at all.
\<close>

theorem close_resets_only_after_closeTab:
  "(if PLATFORM_ANDROID p \<and> JavaEnv p \<and> ChromeCustomTabsClass p \<and> CloseTabMethod p
    then java_calls (CloseChromeCustomTab p this w) = java_calls w @ [closeTab] \<and>
         \<not> IsChromeCustomTabOpen this (CloseChromeCustomTab p this w) \<and>
         GetCurrentURL this (CloseChromeCustomTab p this w) = '''' \<and>
         ActiveInstance (CloseChromeCustomTab p this w) = None
    else CloseChromeCustomTab p this w = w)"
  by (auto simp: CloseChromeCustomTab_def session_defs split: option.splits)

theorem close_resets_only_after_closeTab_witness:
  "\<not> IsChromeCustomTabOpen 1 (CloseChromeCustomTab android 1 open_session) \<and>
   GetCurrentURL 1 (CloseChromeCustomTab android 1 open_session) = '''' \<and>
   ActiveInstance (CloseChromeCustomTab android 1 open_session) = None \<and>
   CloseChromeCustomTab (android\<lparr>CloseTabMethod := False\<rparr>) 1 open_session = open_session \<and>
   CloseChromeCustomTab (android\<lparr>ChromeCustomTabsClass := False\<rparr>) 1 open_session = open_session \<and>
   CloseChromeCustomTab (android\<lparr>JavaEnv := False\<rparr>) 1 open_session = open_session \<and>
   CloseChromeCustomTab (android\<lparr>PLATFORM_ANDROID := False\<rparr>) 1 open_session = open_session"
  using close_resets_only_after_closeTab [of android 1 open_session]
    close_resets_only_after_closeTab [of "android\<lparr>CloseTabMethod := False\<rparr>" 1 open_session]
    close_resets_only_after_closeTab [of "android\<lparr>ChromeCustomTabsClass := False\<rparr>" 1 open_session]
    close_resets_only_after_closeTab [of "android\<lparr>JavaEnv := False\<rparr>" 1 open_session]
    close_resets_only_after_closeTab [of "android\<lparr>PLATFORM_ANDROID := False\<rparr>" 1 open_session]
  by (simp add: android_def)

section \<open>Properties of the parameter helpers\<close>

lemma GetDeepLinkParameterAsFloat_found:
  "GetDeepLinkParameterAsFloat Atof ParamsJson Key =
     map_option Atof (GetDeepLinkParameter ParamsJson Key)"
  by (simp add: GetDeepLinkParameterAsFloat_def split: option.splits)

lemma GetDeepLinkParameterAsInt_found:
  "GetDeepLinkParameterAsInt ParamsJson Key =
     map_option Atoi (GetDeepLinkParameter ParamsJson Key)"
  by (simp add: GetDeepLinkParameterAsInt_def split: option.splits)

text \<open>
  The vector helper succeeds exactly when the three keys are found; what their texts are
  plays no part.
\<close>

lemma GetDeepLinkParameterAsVector_found:
  "GetDeepLinkParameterAsVector Atof ParamsJson \<noteq> None \<longleftrightarrow>
     GetDeepLinkParameter ParamsJson ''x'' \<noteq> None \<and>
     GetDeepLinkParameter ParamsJson ''y'' \<noteq> None \<and>
     GetDeepLinkParameter ParamsJson ''z'' \<noteq> None"
  by (auto simp: GetDeepLinkParameterAsVector_def GetDeepLinkParameterAsFloat_found Let_def
      split: option.splits)

lemma Atoi_non_numeric: "Atoi ''abc'' = 0"
  by code_simp

lemma example_abc: \<open>GetDeepLinkParameter ''{"a":"abc"}'' ''a'' = Some ''abc''\<close>
  by code_simp

lemma example_missing_z: \<open>GetDeepLinkParameterAsVector Atof ''{"x":"1","y":"2"}'' = None\<close>
proof -
  have \<open>GetDeepLinkParameter ''{"x":"1","y":"2"}'' ''z'' = None\<close>
    by code_simp
  then show ?thesis
    using GetDeepLinkParameterAsVector_found [of Atof \<open>''{"x":"1","y":"2"}''\<close>] by blast
qed

subsection \<open>C8\<close>

text \<open>
  C8. The claim is that a key whose text is not a number gives the zero fallback and a
  false success flag. The code gives the zero and a true flag: for \<open>{"a":"abc"}\<close> and
  key \<open>a\<close> the integer helper returns true with 0, and the float helper returns true with
  whatever \<open>Atof\<close> makes of \<open>abc\<close>.
\<close>

theorem non_numeric_text_reports_success:
  \<open>GetDeepLinkParameterAsInt ''{"a":"abc"}'' ''a'' = Some 0 \<and>
   GetDeepLinkParameterAsFloat Atof ''{"a":"abc"}'' ''a'' = Some (Atof ''abc'')\<close>
  by (simp add: GetDeepLinkParameterAsInt_found GetDeepLinkParameterAsFloat_found example_abc
      Atoi_non_numeric)

subsection \<open>C9\<close>

text \<open>
  C9. The claim is that the vector helper returns a value only when x, y and z are present
  and numeric. The code returns one as soon as the three keys are present: for
  \<open>{"x":"a","y":"b","z":"c"}\<close> it returns true with the three conversions.
\<close>

theorem non_numeric_vector_reports_success:
  \<open>GetDeepLinkParameterAsVector Atof ''{"x":"a","y":"b","z":"c"}'' =
     Some (Atof ''a'', Atof ''b'', Atof ''c'')\<close>
proof -
  have \<open>GetDeepLinkParameter ''{"x":"a","y":"b","z":"c"}'' ''x'' = Some ''a''\<close>
    and \<open>GetDeepLinkParameter ''{"x":"a","y":"b","z":"c"}'' ''y'' = Some ''b''\<close>
    and \<open>GetDeepLinkParameter ''{"x":"a","y":"b","z":"c"}'' ''z'' = Some ''c''\<close>
    by code_simp+
  then show ?thesis
    by (simp add: GetDeepLinkParameterAsVector_def GetDeepLinkParameterAsFloat_found)
qed

section \<open>Properties of the query codec\<close>

lemma queryStringToJson_null: "queryStringToJson None = Inr ''{}''"
  by (simp add: queryStringToJson_def)

lemma queryStringToJson_empty: "queryStringToJson (Some []) = Inr ''{}''"
  by (simp add: queryStringToJson_def)

lemma queryStringToJson_two_pairs:
  \<open>queryStringToJson (Some ''a=1&b=2'') = Inr ''{"a":"1","b":"2"}''\<close>
  by code_simp

lemma queryStringToJson_dropped_in_the_middle:
  \<open>queryStringToJson (Some ''a=1&x&b=2'') = Inr ''{"a":"1","b":"2"}''\<close>
  by code_simp

lemma queryStringToJson_bad_escape:
  \<open>queryStringToJson (Some ''a=%zz'') = Inl IllegalArgumentException\<close>
  by code_simp

subsection \<open>C2\<close>

text \<open>
  C2. The claim is that the output is a well-formed JSON object of the kept pairs also when
  a dropped entry comes before a kept one. The comma is written when the index of the
  entry is positive, not when a pair has been written before: for \<open>x&a=1\<close> the output is
  \<open>{,"a":"1"}\<close>, which is not JSON.
\<close>

theorem dropped_first_entry_leaves_comma:
  \<open>queryStringToJson (Some ''x&a=1'') = Inr ''{,"a":"1"}'' \<and>
   Deserialize ''{,"a":"1"}'' = None\<close>
  by code_simp

subsection \<open>C1\<close>

text \<open>
  C1. The claim is that every key of a well-formed query is read back with its decoded
  value. Keys and values are written between quotes as they are: for \<open>a=%22\<close>, whose
  value decodes to one double quote, the output is \<open>{"a":"""}\<close> and reading the key back
  fails.
\<close>

theorem quote_in_value_breaks_round_trip:
  \<open>URLDecoder_decode ''%22'' = Inr [CHR 0x22] \<and>
   queryStringToJson (Some ''a=%22'') = Inr ''{"a":"""}'' \<and>
   GetDeepLinkParameter ''{"a":"""}'' ''a'' = None\<close>
  by code_simp

section \<open>The round trip on plain keys and values\<close>

subsection \<open>Splitting\<close>

lemma split_from_none: "ch \<notin> set s \<Longrightarrow> split_from ch cur s = [cur @ s]"
  by (induction s arbitrary: cur) auto

lemma split_from_first:
  "ch \<notin> set s \<Longrightarrow> split_from ch cur (s @ ch # rest) = (cur @ s) # split_from ch [] rest"
  by (induction s arbitrary: cur) auto

lemma split_from_join:
  "es \<noteq> [] \<Longrightarrow> \<forall>e \<in> set es. ch \<notin> set e \<Longrightarrow> split_from ch [] (join [ch] es) = es"
proof (induction "[ch]" es rule: join.induct)
  case 1
  then show ?case by simp
next
  case (2 x)
  then show ?case by (simp add: split_from_none)
next
  case (3 x y ys)
  then show ?case by (simp add: split_from_first)
qed

lemma join_contains:
  "ch \<in> set (join [ch] (x # y # ys))"
  by simp

lemma String_split_join:
  assumes "es \<noteq> []" and "\<forall>e \<in> set es. ch \<notin> set e \<and> e \<noteq> []"
  shows "String_split ch (join [ch] es) = es"
proof (cases es)
  case Nil
  with assms show ?thesis by simp
next
  case (Cons x xs)
  show ?thesis
  proof (cases xs)
    case Nil
    with Cons assms show ?thesis
      by (simp add: String_split_def)
  next
    case (Cons y ys)
    have last: "last es \<noteq> []"
      using assms by (metis last_in_set)
    have "rev (dropWhile (\<lambda>piece. piece = []) (rev es)) = es"
      using last assms(1) by (cases es rule: rev_cases) auto
    moreover have "split_from ch [] (join [ch] es) = es"
      using assms by (simp add: split_from_join)
    moreover have "ch \<in> set (join [ch] es)"
      using \<open>es = x # xs\<close> Cons by simp
    ultimately show ?thesis
      by (simp add: String_split_def)
  qed
qed

lemma cut_at_first:
  "ch \<notin> set k \<Longrightarrow>
     takeWhile (\<lambda>c. c \<noteq> ch) (k @ ch # e) = k \<and>
     tl (dropWhile (\<lambda>c. c \<noteq> ch) (k @ ch # e)) = e"
  by (induction k) auto

lemma String_split2_first:
  "ch \<notin> set k \<Longrightarrow> String_split2 ch (k @ ch # e) = [k, e]"
  by (simp add: String_split2_def cut_at_first)

subsection \<open>Writing the object\<close>

lemma loop_rest:
  assumes "\<forall>(k, e, v) \<in> set ps. CHR ''='' \<notin> set k \<and> URLDecoder_decode e = Inr v"
  shows "queryStringToJson_loop (Suc i) (map (\<lambda>(k, e, v). k @ CHR ''='' # e) ps) json =
     Inr (json @ concat (map (\<lambda>(k, e, v). CHR '','' # member_text k v) ps))"
  using assms
proof (induction ps arbitrary: i json)
  case Nil
  show ?case by simp
next
  case (Cons p ps)
  obtain k e v where p: "p = (k, e, v)"
    by (cases p)
  from Cons.prems p have k: "CHR ''='' \<notin> set k" and e: "URLDecoder_decode e = Inr v"
    by auto
  from Cons.prems have rest:
    "\<forall>(k, e, v) \<in> set ps. CHR ''='' \<notin> set k \<and> URLDecoder_decode e = Inr v"
    by simp
  show ?case
    using Cons.IH [OF rest, of "Suc i"] k e
    by (simp add: p String_split2_first member_text_def)
qed

lemma loop_first:
  assumes "\<forall>(k, e, v) \<in> set (p # ps). CHR ''='' \<notin> set k \<and> URLDecoder_decode e = Inr v"
    and "p = (k, e, v)"
  shows "queryStringToJson_loop 0 (map (\<lambda>(k, e, v). k @ CHR ''='' # e) (p # ps)) json =
     Inr (json @ member_text k v @
          concat (map (\<lambda>(k, e, v). CHR '','' # member_text k v) ps))"
proof -
  from assms have k: "CHR ''='' \<notin> set k" and e: "URLDecoder_decode e = Inr v"
    by auto
  from assms(1) have rest:
    "\<forall>(k, e, v) \<in> set ps. CHR ''='' \<notin> set k \<and> URLDecoder_decode e = Inr v"
    by simp
  show ?thesis
    using loop_rest [OF rest, of 0] k e
    by (simp add: assms(2) String_split2_first member_text_def)
qed

subsection \<open>Reading it back\<close>

lemma map_option_append_Nil: "map_option ((@) []) r = r"
  by (cases r) simp_all

lemma map_option_append_one: "map_option ((@) [t]) r = map_option ((#) t) r"
  by (cases r) simp_all

lemma read_string:
  "list_all plain v \<Longrightarrow>
     read_tokens (InString acc) (v @ CHR 0x22 # rest) =
       map_option ((#) (Tok_String (acc @ v))) (read_tokens Between rest)"
proof (induction v arbitrary: acc)
  case Nil
  show ?case
    by (simp add: map_option_append_one)
next
  case (Cons c v)
  then have c: "c \<noteq> CHR 0x22" "c \<noteq> CHR 0x5C"
    by (simp_all add: plain_def)
  from Cons.prems have v: "list_all plain v"
    by simp
  show ?case
    using Cons.IH [OF v, of "acc @ [c]"] c
    by (simp add: map_option_append_Nil)
qed

lemma read_quote: "read_tokens Between (CHR 0x22 # s) = read_tokens (InString []) s"
  by (simp add: read_between_def IsWhitespace_def map_option_append_Nil)

lemma read_colon:
  "read_tokens Between (CHR '':'' # s) = map_option ((#) Tok_Colon) (read_tokens Between s)"
  by (simp add: read_between_def IsWhitespace_def map_option_append_one)

lemma read_comma:
  "read_tokens Between (CHR '','' # s) = map_option ((#) Tok_Comma) (read_tokens Between s)"
  by (simp add: read_between_def IsWhitespace_def map_option_append_one)

lemma read_open:
  "read_tokens Between (CHR ''{'' # s) = map_option ((#) Tok_CurlyOpen) (read_tokens Between s)"
  by (simp add: read_between_def IsWhitespace_def map_option_append_one)

lemma read_close: "read_tokens Between ''}'' = Some [Tok_CurlyClose]"
  by (simp add: read_between_def IsWhitespace_def)

lemma read_member:
  assumes "list_all plain k" and "list_all plain v"
  shows "read_tokens Between (member_text k v @ rest) =
     map_option (\<lambda>ts. Tok_String k # Tok_Colon # Tok_String v # ts) (read_tokens Between rest)"
proof -
  have "read_tokens Between (member_text k v @ rest) =
      read_tokens (InString []) (k @ CHR 0x22 # CHR '':'' # CHR 0x22 # v @ CHR 0x22 # rest)"
    by (simp add: member_text_def read_quote del: read_tokens.simps)
  also have "\<dots> = map_option ((#) (Tok_String k))
      (read_tokens Between (CHR '':'' # CHR 0x22 # v @ CHR 0x22 # rest))"
    using read_string [OF assms(1), of "[]"] by simp
  also have "\<dots> = map_option ((#) (Tok_String k)) (map_option ((#) Tok_Colon)
      (read_tokens (InString []) (v @ CHR 0x22 # rest)))"
    by (simp add: read_colon read_quote del: read_tokens.simps)
  also have "\<dots> = map_option ((#) (Tok_String k)) (map_option ((#) Tok_Colon)
      (map_option ((#) (Tok_String v)) (read_tokens Between rest)))"
    using read_string [OF assms(2), of "[]"] by simp
  finally show ?thesis
    by (simp add: option.map_comp comp_def)
qed

lemma read_members:
  assumes "\<forall>(k, e, v) \<in> set ps. list_all plain k \<and> list_all plain v"
  shows "read_tokens Between
       (concat (map (\<lambda>(k, e, v). CHR '','' # member_text k v) ps) @ ''}'') =
     Some (concat (map (\<lambda>(k, e, v). [Tok_Comma, Tok_String k, Tok_Colon, Tok_String v]) ps) @
           [Tok_CurlyClose])"
  using assms
proof (induction ps)
  case Nil
  show ?case
    by (simp add: read_close del: read_tokens.simps)
next
  case (Cons p ps)
  obtain k e v where p: "p = (k, e, v)"
    by (cases p)
  from Cons.prems p have kv: "list_all plain k" "list_all plain v"
    by auto
  from Cons.prems have rest: "\<forall>(k, e, v) \<in> set ps. list_all plain k \<and> list_all plain v"
    by simp
  show ?case
    using Cons.IH [OF rest] read_member [OF kv]
    by (simp add: p read_comma del: read_tokens.simps)
qed

lemma read_all_members:
  "read_all (Exp_CommaOrClose, [EJson_Object], key, ms)
     (concat (map (\<lambda>(k, e, v). [Tok_Comma, Tok_String k, Tok_Colon, Tok_String v]) ps) @
      [Tok_CurlyClose]) =
   Some (ms @ map (\<lambda>(k, e, v). (k, FJsonValueString v)) ps)"
proof (induction ps arbitrary: key ms)
  case Nil
  show ?case
    by (simp add: read_token_def close_container_def)
next
  case (Cons p ps)
  obtain k e v where p: "p = (k, e, v)"
    by (cases p)
  show ?case
    using Cons.IH [of k "ms @ [(k, FJsonValueString v)]"]
    by (simp add: p read_token_def read_name_def read_value_def value_done_def)
qed

lemma Deserialize_written:
  assumes "\<forall>(k, e, v) \<in> set (p # ps). list_all plain k \<and> list_all plain v"
    and "p = (k, e, v)"
  shows "Deserialize (''{'' @ member_text k v @
            concat (map (\<lambda>(k, e, v). CHR '','' # member_text k v) ps) @ ''}'') =
     Some (map (\<lambda>(k, e, v). (k, FJsonValueString v)) (p # ps))"
proof -
  from assms have kv: "list_all plain k" "list_all plain v"
    by auto
  from assms(1) have rest: "\<forall>(k, e, v) \<in> set ps. list_all plain k \<and> list_all plain v"
    by simp
  have tokens: "read_tokens Between (''{'' @ member_text k v @
            concat (map (\<lambda>(k, e, v). CHR '','' # member_text k v) ps) @ ''}'') =
      Some (Tok_CurlyOpen # Tok_String k # Tok_Colon # Tok_String v #
            concat (map (\<lambda>(k, e, v). [Tok_Comma, Tok_String k, Tok_Colon, Tok_String v]) ps) @
            [Tok_CurlyClose])"
    using read_member [OF kv] read_members [OF rest]
    by (simp add: read_open del: read_tokens.simps)
  show ?thesis
    unfolding Deserialize_def tokens
    using read_all_members [of k "[(k, FJsonValueString v)]" ps]
    by (simp add: assms(2) read_token_def read_name_def read_value_def value_done_def)
qed

lemma filter_no_field:
  assumes "map FChar_ToLower k \<notin> (\<lambda>p. map FChar_ToLower (fst p)) ` set ps"
  shows "filter (\<lambda>m. FString_eq (fst m) k) (map (\<lambda>(k, e, v). (k, FJsonValueString v)) ps) = []"
  using assms by (induction ps) (auto simp: FString_eq_def)

lemma filter_one_field:
  assumes "distinct (map (\<lambda>p. map FChar_ToLower (fst p)) ps)" and "(k, e, v) \<in> set ps"
  shows "filter (\<lambda>m. FString_eq (fst m) k) (map (\<lambda>(k, e, v). (k, FJsonValueString v)) ps) =
     [(k, FJsonValueString v)]"
  using assms
proof (induction ps)
  case Nil
  then show ?case by simp
next
  case (Cons p ps)
  obtain k' e' v' where p: "p = (k', e', v')"
    by (cases p)
  from Cons.prems(1) p have fresh:
    "map FChar_ToLower k' \<notin> (\<lambda>p. map FChar_ToLower (fst p)) ` set ps"
    and dist: "distinct (map (\<lambda>p. map FChar_ToLower (fst p)) ps)"
    by simp_all
  show ?case
  proof (cases "(k, e, v) \<in> set ps")
    case True
    then have mem: "map FChar_ToLower k \<in> (\<lambda>p. map FChar_ToLower (fst p)) ` set ps"
      by force
    have "\<not> FString_eq k' k"
    proof
      assume "FString_eq k' k"
      then have "map FChar_ToLower k' = map FChar_ToLower k"
        by (simp add: FString_eq_def)
      with mem fresh show False
        by simp
    qed
    with Cons.IH [OF dist True] show ?thesis
      by (simp add: p)
  next
    case False
    with Cons.prems(2) p have same: "k' = k" "e' = e" "v' = v"
      by simp_all
    from fresh same have
      "filter (\<lambda>m. FString_eq (fst m) k) (map (\<lambda>(k, e, v). (k, FJsonValueString v)) ps) = []"
      by (simp add: filter_no_field)
    then show ?thesis
      by (simp add: p same FString_eq_def)
  qed
qed

lemma FindField_fst:
  "FindField obj FieldName =
     (case filter (\<lambda>m. FString_eq (fst m) FieldName) obj of
        [] \<Rightarrow> None
      | m # ms \<Rightarrow> Some (snd (last (m # ms))))"
  by (simp add: FindField_def case_prod_unfold)

lemma GetDeepLinkParameter_member:
  assumes "Deserialize json = Some (map (\<lambda>(k, e, v). (k, FJsonValueString v)) ps)"
    and "distinct (map (\<lambda>p. map FChar_ToLower (fst p)) ps)"
    and "(k, e, v) \<in> set ps" and "k \<noteq> []" and "json \<noteq> []"
  shows "GetDeepLinkParameter json k = Some v"
  using assms(1,4,5) filter_one_field [OF assms(2,3)]
  by (simp add: GetDeepLinkParameter_def HasField_def GetStringField_def FindField_fst)

text \<open>
  For a query of one or more pairs whose keys and decoded values hold no double quote and
  no backslash (and whose keys are not empty, hold no \<open>=\<close> and differ in more than letter
  case), every key is read back with its decoded value.
\<close>

lemma round_trip_plain:
  assumes "ps \<noteq> []"
    and "\<forall>(k, e, v) \<in> set ps.
           k \<noteq> [] \<and> CHR ''='' \<notin> set k \<and> CHR ''&'' \<notin> set k \<and> CHR ''&'' \<notin> set e \<and>
           URLDecoder_decode e = Inr v \<and> list_all plain k \<and> list_all plain v"
    and "distinct (map (\<lambda>p. map FChar_ToLower (fst p)) ps)"
  shows "\<exists>json. queryStringToJson (Some (join ''&'' (map (\<lambda>(k, e, v). k @ CHR ''='' # e) ps))) =
            Inr json \<and>
          (\<forall>(k, e, v) \<in> set ps. GetDeepLinkParameter json k = Some v)"
proof -
  from assms(1) obtain p ps' where ps: "ps = p # ps'"
    by (cases ps) auto
  obtain k0 e0 v0 where p: "p = (k0, e0, v0)"
    by (cases p)
  let ?entries = "map (\<lambda>(k, e, v). k @ CHR ''='' # e) ps"
  let ?json = "''{'' @ member_text k0 v0 @
       concat (map (\<lambda>(k, e, v). CHR '','' # member_text k v) ps') @ ''}''"
  have entries: "\<forall>e \<in> set ?entries. CHR ''&'' \<notin> set e \<and> e \<noteq> []"
    using assms(2) by auto
  have split: "String_split CHR ''&'' (join ''&'' ?entries) = ?entries"
    using String_split_join [OF _ entries] assms(1) by simp
  have nonempty: "join ''&'' ?entries \<noteq> []"
    by (simp add: ps p) (cases ps'; simp)
  have dec: "\<forall>(k, e, v) \<in> set (p # ps'). CHR ''='' \<notin> set k \<and> URLDecoder_decode e = Inr v"
    using assms(2) ps by auto
  have loop: "queryStringToJson_loop 0 ?entries ''{'' =
      Inr (''{'' @ member_text k0 v0 @
           concat (map (\<lambda>(k, e, v). CHR '','' # member_text k v) ps'))"
    using loop_first [OF dec p, of "''{''"] unfolding ps .
  have written: "queryStringToJson (Some (join ''&'' ?entries)) = Inr ?json"
    using nonempty by (simp add: queryStringToJson_def split loop)
  have pl: "\<forall>(k, e, v) \<in> set (p # ps'). list_all plain k \<and> list_all plain v"
    using assms(2) ps by auto
  have parsed: "Deserialize ?json = Some (map (\<lambda>(k, e, v). (k, FJsonValueString v)) ps)"
    using Deserialize_written [OF pl p] unfolding ps .
  have "GetDeepLinkParameter ?json k = Some v" if "(k, e, v) \<in> set ps" for k e v
  proof -
    from that assms(2) have "k \<noteq> []"
      by auto
    with parsed assms(3) that show ?thesis
      by (intro GetDeepLinkParameter_member [where e = e and ps = ps]) simp_all
  qed
  with written show ?thesis
    by blast
qed

lemma round_trip_plain_example:
  \<open>\<exists>json. queryStringToJson (Some ''text=hello+world&priority=%31'') = Inr json \<and>
     GetDeepLinkParameter json ''text'' = Some ''hello world'' \<and>
     GetDeepLinkParameter json ''priority'' = Some ''1''\<close>
proof -
  have dec: "URLDecoder_decode ''hello+world'' = Inr ''hello world''"
    "URLDecoder_decode ''%31'' = Inr ''1''"
    by code_simp+
  have pl: "list_all plain ''text''" "list_all plain ''priority''"
    "list_all plain ''hello world''" "list_all plain ''1''"
    by (simp_all add: plain_def)
  have low: "map FChar_ToLower ''text'' \<noteq> map FChar_ToLower ''priority''"
    by (simp add: FChar_ToLower_def)
  from round_trip_plain
    [of "[(''text'', ''hello+world'', ''hello world''), (''priority'', ''%31'', ''1'')]"]
    dec pl low
  show ?thesis
    by simp
qed

section \<open>Properties of the channel retries\<close>



lemmas attempt_defs =
  attemptPostMessageChannelRequest_def Let_def Log_def postDelayed_def
  MAX_POSTMESSAGE_RETRIES_def RETRY_DELAY_MS_def






lemma attempt_keeps_url:
  "lastNavigatedUrl (attemptPostMessageChannelRequest r a origin t) = lastNavigatedUrl t"
  by (simp add: attempt_defs)

lemma fire_keeps_url: "lastNavigatedUrl (fire i r t) = lastNavigatedUrl t"
proof (cases "i < length (posted t)")
  case True
  then show ?thesis
    by (cases "snd (posted t ! i)")
      (simp_all add: fire_def retry_body_def attempt_keeps_url split: option.splits)
next
  case False
  then show ?thesis
    by (simp add: fire_def)
qed

lemma attempt_rejected_keeps_log:
  "(l, m) \<in> set (log t) \<Longrightarrow>
     (l, m) \<in> set (log (attemptPostMessageChannelRequest False a origin t))"
  by (simp add: attempt_defs)



















subsection \<open>C6\<close>








subsection \<open>C7\<close>




end
